theory Spec2Isabelle
  imports Complex_Main "HOL-Library.AList" "HOL-Library.Multiset"
begin

section \<open>Python values, strings and exceptions\<close>

text \<open>
  The pipeline of \<^verbatim>\<open>frontend/rag\<close> is embedded function by function. Python
  \<^verbatim>\<open>float\<close> values are modelled by exact rationals (\<open>0.4\<close> is \<open>4/10\<close>), strings are
  ASCII texts, a \<^verbatim>\<open>dict\<close> is an association list in insertion order, and every
  \<^verbatim>\<open>raise\<close> is the \<open>Inl\<close> branch of a sum. Output to the console and to the log
  (\<^verbatim>\<open>print\<close>, \<^verbatim>\<open>logger\<close>) is taken to have no effect on the results and is left out.
\<close>

datatype pyval =
    PNone
  | PStr string
  | PInt int
  | PFloat rat
  | PList "pyval list"
  | PDict "(string \<times> pyval) list"

type_synonym pydict = "(string \<times> pyval) list"

text \<open>The exception classes of \<^verbatim>\<open>error_handling.py\<close>, and the built-in ones by name.\<close>

datatype exn_class =
    FinanceGPTError
  | TickerExtractionError
  | FinnhubAPIError
  | VectorStoreError
  | LLMError
  | MongoDBError
  | Builtin string

datatype exn = Exn exn_class string

fun exn_str :: "exn \<Rightarrow> string" where
  "exn_str (Exn c msg) = msg"

fun exn_class_of :: "exn \<Rightarrow> exn_class" where
  "exn_class_of (Exn c msg) = c"

definition ascii_lowercase :: string where
  "ascii_lowercase = ''abcdefghijklmnopqrstuvwxyz''"

definition ascii_uppercase :: string where
  "ascii_uppercase = ''ABCDEFGHIJKLMNOPQRSTUVWXYZ''"

definition digits :: string where
  "digits = ''0123456789''"

definition whitespace :: string where
  "whitespace = [CHR '' '', CHR 0x09, CHR 0x0A, CHR 0x0B, CHR 0x0C, CHR 0x0D,
                 CHR 0x1C, CHR 0x1D, CHR 0x1E, CHR 0x1F]"

definition is_upper :: "char \<Rightarrow> bool" where
  "is_upper c \<longleftrightarrow> c \<in> set ascii_uppercase"

definition is_space :: "char \<Rightarrow> bool" where
  "is_space c \<longleftrightarrow> c \<in> set whitespace"

definition is_word_char :: "char \<Rightarrow> bool" where
  \<comment> \<open>the class \<^verbatim>\<open>\w\<close> of \<^verbatim>\<open>re\<close>\<close>
  "is_word_char c \<longleftrightarrow>
     c \<in> set ascii_lowercase \<or> c \<in> set ascii_uppercase \<or> c \<in> set digits \<or> c = CHR ''_''"

definition upper_char :: "char \<Rightarrow> char" where
  "upper_char c = (case map_of (zip ascii_lowercase ascii_uppercase) c of
                     Some u \<Rightarrow> u | None \<Rightarrow> c)"

definition lower_char :: "char \<Rightarrow> char" where
  "lower_char c = (case map_of (zip ascii_uppercase ascii_lowercase) c of
                     Some l \<Rightarrow> l | None \<Rightarrow> c)"

definition upper :: "string \<Rightarrow> string" where
  "upper s = map upper_char s"

definition lower :: "string \<Rightarrow> string" where
  "lower s = map lower_char s"

text \<open>\<^verbatim>\<open>sub in s\<close> on strings.\<close>

fun contains :: "string \<Rightarrow> string \<Rightarrow> bool" where
  "contains sub [] = (sub = [])"
| "contains sub (c # cs) = (take (length sub) (c # cs) = sub \<or> contains sub cs)"

text \<open>
  The maximal runs of characters that are not separators: \<^verbatim>\<open>s.split()\<close> with the
  white space as separators.
\<close>

fun runs :: "(char \<Rightarrow> bool) \<Rightarrow> string \<Rightarrow> string \<Rightarrow> string list" where
  "runs sep cur [] = (if cur = [] then [] else [cur])"
| "runs sep cur (c # cs) =
     (if sep c then (if cur = [] then runs sep [] cs else cur # runs sep [] cs)
      else runs sep (cur @ [c]) cs)"

definition split :: "string \<Rightarrow> string list" where
  "split s = runs is_space [] s"

definition strip :: "string \<Rightarrow> string" where
  "strip s = rev (dropWhile is_space (rev (dropWhile is_space s)))"

text \<open>\<^verbatim>\<open>s.split(sep)\<close> and \<^verbatim>\<open>s.replace(old, "")\<close> for a non-empty constant.\<close>

function split_on :: "string \<Rightarrow> string \<Rightarrow> string \<Rightarrow> string list" where
  "split_on sep cur [] = [cur]"
| "split_on sep cur (c # cs) =
     (if sep \<noteq> [] \<and> take (length sep) (c # cs) = sep
      then cur # split_on sep [] (drop (length sep) (c # cs))
      else split_on sep (cur @ [c]) cs)"
  by pat_completeness auto
termination
  by (relation "measure (\<lambda>(sep, cur, s). length s)") auto

function remove_all :: "string \<Rightarrow> string \<Rightarrow> string" where
  "remove_all old [] = []"
| "remove_all old (c # cs) =
     (if old \<noteq> [] \<and> take (length old) (c # cs) = old
      then remove_all old (drop (length old) (c # cs))
      else c # remove_all old cs)"
  by pat_completeness auto
termination
  by (relation "measure (\<lambda>(old, s). length s)") auto

fun join :: "string \<Rightarrow> string list \<Rightarrow> string" where
  "join sep [] = []"
| "join sep [x] = x"
| "join sep (x # y # ys) = x @ sep @ join sep (y # ys)"

text \<open>Decimal notation of a natural number, for the numbering of the context lines.\<close>

fun digit_char :: "nat \<Rightarrow> char" where
  "digit_char n = digits ! (n mod 10)"

function str_nat :: "nat \<Rightarrow> string" where
  "str_nat n = (if n < 10 then [digit_char n] else str_nat (n div 10) @ [digit_char n])"
  by pat_completeness auto
termination
  by (relation "measure id") auto

text \<open>
  A Python \<^verbatim>\<open>set\<close> of strings is kept as the list of its elements without
  repetition; \<open>py_set\<close> builds it from an iterable. The order in which the interpreter
  enumerates a set is not fixed by the language (it follows the string hashes), so
  \<^verbatim>\<open>list(s)\<close> is the enumeration \<open>order\<close> supplied from outside.
\<close>

definition set_add :: "string list \<Rightarrow> string \<Rightarrow> string list" where
  "set_add S x = (if x \<in> set S then S else S @ [x])"

definition py_set :: "string list \<Rightarrow> string list" where
  "py_set xs = foldl set_add [] xs"

section \<open>Ticker extraction (utils.py)\<close>

definition COMMON_TICKERS :: "string list" where
  "COMMON_TICKERS =
    [''AAPL'', ''MSFT'', ''GOOGL'', ''GOOG'', ''AMZN'', ''TSLA'', ''META'', ''NVDA'',
     ''BRK.A'', ''BRK.B'', ''JPM'', ''JNJ'', ''V'', ''PG'', ''UNH'', ''HD'', ''MA'', ''BAC'',
     ''ABBV'', ''PFE'', ''KO'', ''AVGO'', ''PEP'', ''TMO'', ''COST'', ''DIS'', ''ABT'', ''DHR'',
     ''VZ'', ''ADBE'', ''NFLX'', ''XOM'', ''WMT'', ''CRM'', ''LLY'', ''ORCL'', ''ACN'', ''CVX'',
     ''MRK'', ''QCOM'', ''TXN'', ''AMD'', ''HON'', ''NKE'', ''IBM'', ''INTC'', ''BA'', ''GS'',
     ''CAT'', ''AMGN'', ''SBUX'', ''INTU'', ''BKNG'', ''ISRG'']"

definition FINANCIAL_KEYWORDS :: "string list" where
  "FINANCIAL_KEYWORDS =
    [''stock'', ''stocks'', ''market'', ''trading'', ''investment'', ''portfolio'',
     ''earnings'', ''revenue'', ''profit'', ''loss'', ''dividend'', ''shares'', ''price'',
     ''valuation'', ''bull'', ''bear'', ''volatility'', ''analysis'', ''forecast'', ''outlook'']"

definition company_mappings :: "(string \<times> string) list" where
  "company_mappings =
    [(''APPLE'', ''AAPL''), (''MICROSOFT'', ''MSFT''), (''GOOGLE'', ''GOOGL''),
     (''ALPHABET'', ''GOOGL''), (''AMAZON'', ''AMZN''), (''TESLA'', ''TSLA''),
     (''META'', ''META''), (''FACEBOOK'', ''META''), (''NVIDIA'', ''NVDA''),
     (''BERKSHIRE'', ''BRK.A''), (''JPMORGAN'', ''JPM''), (''JOHNSON'', ''JNJ''),
     (''VISA'', ''V''), (''PROCTER'', ''PG''), (''GAMBLE'', ''PG''), (''NETFLIX'', ''NFLX''),
     (''DISNEY'', ''DIS''), (''WALMART'', ''WMT''), (''COCA'', ''KO''), (''COLA'', ''KO''),
     (''INTEL'', ''INTC''), (''BOEING'', ''BA''), (''GOLDMAN'', ''GS''), (''SACHS'', ''GS''),
     (''STARBUCKS'', ''SBUX''), (''ADOBE'', ''ADBE'')]"

text \<open>
  \<^verbatim>\<open>re.findall(r"\b[A-Z]{1,5}\b", query_upper)\<close>: a match begins and ends at a word
  boundary and holds capital letters only, so the matches are the maximal runs of word
  characters that consist of one to five capital letters.
\<close>

definition findall_ticker_pattern :: "string \<Rightarrow> string list" where
  "findall_ticker_pattern s =
     filter (\<lambda>w. list_all is_upper w \<and> length w \<le> 5) (runs (\<lambda>c. \<not> is_word_char c) [] s)"

text \<open>
  \<^verbatim>\<open>re.search(r"\$[A-Z]{1,5}\b", query)\<close>: a dollar sign, then a run of one to five
  capital letters that ends at a word boundary. After fewer letters than the whole run
  the next character is a letter, which is no boundary, so only the whole run can match.
\<close>

definition dollar_ticker_here :: "string \<Rightarrow> bool" where
  "dollar_ticker_here s =
     (let run = takeWhile is_upper s; rest = dropWhile is_upper s
      in 1 \<le> length run \<and> length run \<le> 5 \<and>
         (case rest of [] \<Rightarrow> True | c # cs \<Rightarrow> \<not> is_word_char c))"

fun search_dollar_ticker :: "string \<Rightarrow> bool" where
  "search_dollar_ticker [] = False"
| "search_dollar_ticker (c # cs) =
     ((c = CHR ''$'' \<and> dollar_ticker_here cs) \<or> search_dollar_ticker cs)"

text \<open>
  The fields of a model class carry the initials of the class, since several classes
  share field names (\<^verbatim>\<open>summary\<close>, \<^verbatim>\<open>ticker\<close>, \<^verbatim>\<open>headline\<close>).
\<close>

record TickerExtractionResult =
  ter_tickers :: "string list"
  ter_confidence :: rat
  ter_query_type :: string

definition determine_query_type :: "string \<Rightarrow> string list \<Rightarrow> string" where
  "determine_query_type query tickers =
     (let query_lower = lower query in
      if tickers \<noteq> [] \<and> card (set tickers) = 1 then ''stock_specific''
      else if tickers \<noteq> [] \<and> card (set tickers) > 1 then ''multi_stock_comparison''
      else if list_ex (\<lambda>term. contains term query_lower)
                [''market'', ''economy'', ''sector'', ''industry'', ''overall'', ''general'']
        then ''market_general''
      else if list_ex (\<lambda>term. contains term query_lower)
                [''news'', ''latest'', ''recent'', ''update'', ''announcement'']
        then ''news_request''
      else if list_ex (\<lambda>term. contains term query_lower)
                [''analyze'', ''analysis'', ''forecast'', ''predict'', ''outlook'']
        then ''analysis_request''
      else if list_ex (\<lambda>term. contains term query_lower)
                [''invest'', ''buy'', ''sell'', ''portfolio'', ''recommend'']
        then ''investment_advice''
      else ''general_financial'')"

definition financial_word_count :: "string \<Rightarrow> nat" where
  "financial_word_count query =
     length (filter (\<lambda>keyword. contains keyword (lower query)) FINANCIAL_KEYWORDS)"

definition calculate_extraction_confidence :: "string \<Rightarrow> string list \<Rightarrow> rat" where
  "calculate_extraction_confidence query tickers =
     (let confidence = 0;
          confidence = (if tickers \<noteq> []
                        then (let confidence = confidence + 0.4
                              in if card (set tickers) > 1 then confidence + 0.2
                                 else confidence)
                        else confidence);
          confidence = confidence + min (of_nat (financial_word_count query) * 0.1) 0.3;
          confidence = (if search_dollar_ticker query then confidence + 0.2 else confidence)
      in min confidence 1.0)"

text \<open>Strategies 1 and 2 of the extractor: the set \<^verbatim>\<open>found_tickers\<close>.\<close>

definition find_tickers :: "string \<Rightarrow> string list" where
  "find_tickers query =
     (let query_upper = upper query;
          found_tickers = [];
          potential_tickers = findall_ticker_pattern query_upper;
          found_tickers = foldl (\<lambda>found ticker.
              if ticker \<in> set COMMON_TICKERS then set_add found ticker else found)
            found_tickers potential_tickers;
          found_tickers = foldl (\<lambda>found (company, ticker).
              if contains company query_upper then set_add found ticker else found)
            found_tickers company_mappings
      in found_tickers)"

definition extract_tickers_from_query ::
    "(string list \<Rightarrow> string list) \<Rightarrow> string \<Rightarrow> TickerExtractionResult" where
  "extract_tickers_from_query order query =
     (let found_tickers = find_tickers query;
          query_type = determine_query_type query found_tickers;
          confidence = calculate_extraction_confidence query found_tickers
      in \<lparr>ter_tickers = order found_tickers, ter_confidence = confidence,
          ter_query_type = query_type\<rparr>)"

section \<open>Relevance ranking and context composition (utils.py)\<close>

definition dict_get :: "pydict \<Rightarrow> string \<Rightarrow> pyval \<Rightarrow> pyval" where
  \<comment> \<open>\<^verbatim>\<open>d.get(key, default)\<close>\<close>
  "dict_get d key dflt = (case map_of d key of Some v \<Rightarrow> v | None \<Rightarrow> dflt)"

text \<open>\<^verbatim>\<open>.upper()\<close> and \<^verbatim>\<open>.lower()\<close> exist on strings only.\<close>

fun str_upper :: "pyval \<Rightarrow> exn + string" where
  "str_upper (PStr s) = Inr (upper s)"
| "str_upper v = Inl (Exn (Builtin ''AttributeError'') ''upper'')"

fun str_lower :: "pyval \<Rightarrow> exn + string" where
  "str_lower (PStr s) = Inr (lower s)"
| "str_lower v = Inl (Exn (Builtin ''AttributeError'') ''lower'')"

definition calculate_relevance_score :: "string list \<Rightarrow> string list \<Rightarrow> pydict \<Rightarrow> exn + rat" where
  "calculate_relevance_score tickers query_words item =
     (let score = 0 in
      case str_upper (dict_get item ''ticker'' (PStr [])) of
        Inl e \<Rightarrow> Inl e
      | Inr item_ticker \<Rightarrow>
     (let score = (if item_ticker \<in> set tickers then score + 0.5 else score) in
      case str_lower (dict_get item ''headline'' (PStr [])) of
        Inl e \<Rightarrow> Inl e
      | Inr headline \<Rightarrow>
     (let headline_words = set (split headline);
          common_words = set query_words \<inter> headline_words;
          score = score + of_nat (card common_words) * 0.1 in
      case str_lower (dict_get item ''summary'' (PStr [])) of
        Inl e \<Rightarrow> Inl e
      | Inr summary \<Rightarrow>
     (let summary_words = set (split summary);
          common_summary_words = set query_words \<inter> summary_words;
          score = score + of_nat (card common_summary_words) * 0.05
      in Inr score))))"

text \<open>
  The loop \<^verbatim>\<open>for item in news_items: item["relevance_score"] = ...\<close> writes into the
  dictionaries of the caller's list; \<open>score_items\<close> returns that list as the loop
  leaves it.
\<close>

fun score_items :: "string list \<Rightarrow> string list \<Rightarrow> pydict list \<Rightarrow> exn + pydict list" where
  "score_items tickers query_words [] = Inr []"
| "score_items tickers query_words (item # items) =
     (case calculate_relevance_score tickers query_words item of
        Inl e \<Rightarrow> Inl e
      | Inr score \<Rightarrow>
          (case score_items tickers query_words items of
             Inl e \<Rightarrow> Inl e
           | Inr items' \<Rightarrow> Inr (AList.update ''relevance_score'' (PFloat score) item # items')))"

definition relevance_key :: "pydict \<Rightarrow> rat" where
  \<comment> \<open>the sort key \<^verbatim>\<open>x.get("relevance_score", 0)\<close>\<close>
  "relevance_key x = (case dict_get x ''relevance_score'' (PInt 0) of
                        PFloat r \<Rightarrow> r | PInt i \<Rightarrow> of_int i | _ \<Rightarrow> 0)"

text \<open>
  \<^verbatim>\<open>sorted(xs, key=k, reverse=True)\<close>: descending by key, and elements of equal key
  stay in their order (Python's sort is stable, also when reversed).
\<close>

fun insert_reverse :: "('a \<Rightarrow> rat) \<Rightarrow> 'a \<Rightarrow> 'a list \<Rightarrow> 'a list" where
  "insert_reverse key x [] = [x]"
| "insert_reverse key x (y # ys) =
     (if key y \<le> key x then x # y # ys else y # insert_reverse key x ys)"

fun sorted_reverse :: "('a \<Rightarrow> rat) \<Rightarrow> 'a list \<Rightarrow> 'a list" where
  "sorted_reverse key [] = []"
| "sorted_reverse key (x # xs) = insert_reverse key x (sorted_reverse key xs)"

text \<open>
  The result is the pair of the caller's list after the call and the returned list.
\<close>

definition rank_news_by_relevance ::
    "pydict list \<Rightarrow> string \<Rightarrow> string list \<Rightarrow> exn + (pydict list \<times> pydict list)" where
  "rank_news_by_relevance news_items query tickers =
     (if news_items = [] then Inr (news_items, [])
      else
        let query_lower = lower query;
            query_words = split query_lower
        in case score_items tickers query_words news_items of
             Inl e \<Rightarrow> Inl e
           | Inr news_items' \<Rightarrow> Inr (news_items', sorted_reverse relevance_key news_items'))"

text \<open>
  An f-string renders a string as it is; the rendering of any other value is Python's
  \<^verbatim>\<open>str\<close>, taken as the parameter \<open>str_of\<close>.
\<close>

definition fmt :: "(pyval \<Rightarrow> string) \<Rightarrow> pyval \<Rightarrow> string" where
  "fmt str_of v = (case v of PStr s \<Rightarrow> s | _ \<Rightarrow> str_of v)"

definition format_item :: "(pyval \<Rightarrow> string) \<Rightarrow> nat \<Rightarrow> pydict \<Rightarrow> string" where
  "format_item str_of i item =
     str_nat i @ ''. '' @ fmt str_of (dict_get item ''headline'' (PStr ''No headline'')) @ [CHR 0x0A] @
     ''   Summary: '' @ fmt str_of (dict_get item ''summary'' (PStr ''No summary'')) @ [CHR 0x0A] @
     ''   Ticker: '' @ fmt str_of (dict_get item ''ticker'' (PStr ''N/A'')) @ [CHR 0x0A] @
     ''   Source: '' @ fmt str_of (dict_get item ''source'' (PStr ''N/A'')) @ [CHR 0x0A]"

definition format_news_for_context :: "(pyval \<Rightarrow> string) \<Rightarrow> pydict list \<Rightarrow> string" where
  "format_news_for_context str_of news_items =
     (if news_items = [] then ''No recent news available.''
      else
        let shown = take 10 news_items;
            context_parts = map (\<lambda>(i, item). format_item str_of i item)
                              (zip [1 ..< Suc (length shown)] shown)
        in join [CHR 0x0A] context_parts)"

section \<open>Answer models (model.py)\<close>

record NewsItem =
  ni_headline :: string
  ni_summary :: string
  ni_ticker :: string
  ni_source :: string
  ni_relevance_score :: "rat option"
  ni_date :: "string option"

record FinancialAnswer =
  fa_summary :: string
  fa_key_insights :: "string list"
  fa_top_news :: "NewsItem list"
  fa_mentioned_tickers :: "string list"
  fa_sentiment :: "string option"
  fa_confidence_score :: "rat option"
  fa_market_outlook :: "string option"

record DocumentModel =
  dm_category :: string
  dm_datetime :: int
  dm_headline :: string
  dm_id :: int
  dm_image :: "string option"
  dm_related :: string
  dm_source :: string
  dm_summary :: string
  dm_url :: string
  dm_ticker :: string
  dm_date :: string

text \<open>
  Validation of a field by pydantic: a \<^verbatim>\<open>str\<close> field takes a string, an
  \<^verbatim>\<open>Optional\<close> field also \<^verbatim>\<open>None\<close>, a \<^verbatim>\<open>float\<close> field a float or an int, an
  \<^verbatim>\<open>int\<close> field an int or a float without fractional part. Pydantic would also read
  a number written as a string; the news source and the pipeline deliver numbers, and a
  string in a numeric field is a validation error here.
\<close>

definition ValidationError :: exn where
  "ValidationError = Exn (Builtin ''ValidationError'') ''validation error''"

fun as_str :: "pyval \<Rightarrow> exn + string" where
  "as_str (PStr s) = Inr s"
| "as_str v = Inl ValidationError"

fun as_opt_str :: "pyval \<Rightarrow> exn + string option" where
  "as_opt_str (PStr s) = Inr (Some s)"
| "as_opt_str PNone = Inr None"
| "as_opt_str v = Inl ValidationError"

fun as_opt_float :: "pyval \<Rightarrow> exn + rat option" where
  "as_opt_float (PFloat r) = Inr (Some r)"
| "as_opt_float (PInt i) = Inr (Some (of_int i))"
| "as_opt_float PNone = Inr None"
| "as_opt_float v = Inl ValidationError"

fun as_int :: "pyval \<Rightarrow> exn + int" where
  "as_int (PInt i) = Inr i"
| "as_int (PFloat r) = (if of_int \<lfloor>r\<rfloor> = r then Inr \<lfloor>r\<rfloor> else Inl ValidationError)"
| "as_int v = Inl ValidationError"

definition opt_val :: "('a \<Rightarrow> pyval) \<Rightarrow> 'a option \<Rightarrow> pyval" where
  "opt_val f x = (case x of None \<Rightarrow> PNone | Some v \<Rightarrow> f v)"

definition NewsItem_init :: "pyval \<Rightarrow> pyval \<Rightarrow> pyval \<Rightarrow> pyval \<Rightarrow> pyval \<Rightarrow> exn + NewsItem" where
  "NewsItem_init headline summary ticker source relevance_score =
     (case (as_str headline, as_str summary, as_str ticker, as_str source,
            as_opt_float relevance_score) of
        (Inr h, Inr s, Inr t, Inr src, Inr r) \<Rightarrow>
          Inr \<lparr>ni_headline = h, ni_summary = s, ni_ticker = t, ni_source = src,
               ni_relevance_score = r, ni_date = None\<rparr>
      | _ \<Rightarrow> Inl ValidationError)"

definition NewsItem_dict :: "NewsItem \<Rightarrow> pydict" where
  \<comment> \<open>\<^verbatim>\<open>item.dict()\<close>\<close>
  "NewsItem_dict item =
     [(''headline'', PStr (ni_headline item)), (''summary'', PStr (ni_summary item)),
      (''ticker'', PStr (ni_ticker item)), (''source'', PStr (ni_source item)),
      (''relevance_score'', opt_val PFloat (ni_relevance_score item)),
      (''date'', opt_val PStr (ni_date item))]"

section \<open>Answer generation (llm\_chain.py)\<close>

text \<open>
  A document of the vector index: the text and the metadata \<^verbatim>\<open>{source, ticker}\<close>,
  which are strings.
\<close>

record Document =
  page_content :: string
  metadata :: "(string \<times> string) list"

record llm_input =
  li_context :: string
  li_query :: string
  li_query_type :: string
  li_tickers :: string

text \<open>
  The external collaborators: the similarity search of the vector index (with the
  embedding of the query), the chain of prompt, completion service and output parser
  (it returns a \<^verbatim>\<open>FinancialAnswer\<close> or raises), the enumeration order of sets and
  \<^verbatim>\<open>str\<close>. Each request to a service is recorded in a trace.
\<close>

record services =
  vector_search :: "string \<Rightarrow> int \<Rightarrow> exn + Document list"
  chain_invoke :: "llm_input \<Rightarrow> exn + FinancialAnswer"
  set_order :: "string list \<Rightarrow> string list"
  str_of :: "pyval \<Rightarrow> string"

datatype call = SimilaritySearch string int | ChainInvoke llm_input

definition similarity_search ::
    "services \<Rightarrow> string \<Rightarrow> int \<Rightarrow> (exn + Document list) \<times> call list" where
  \<comment> \<open>vector\_search.py: \<^verbatim>\<open>vector_store.similarity_search(query, k=n)\<close>\<close>
  "similarity_search svc query n = (vector_search svc query n, [SimilaritySearch query n])"

text \<open>Step 3: the news item read from the content and the metadata of a document.\<close>

definition parse_content :: "string \<Rightarrow> string \<times> string" where
  "parse_content content =
     (let headline = []; summary = [] in
      if contains ''Headline:'' content then
        (case split_on ''Summary:'' [] content of
           p0 # p1 # rest \<Rightarrow>
             (strip (remove_all ''Headline:'' p0),
              (case split_on ''Ticker:'' [] p1 of q0 # qs \<Rightarrow> strip q0 | [] \<Rightarrow> summary))
         | _ \<Rightarrow> (headline, summary))
      else (headline, summary))"

definition news_item_of :: "Document \<Rightarrow> pydict" where
  "news_item_of doc =
     (let ticker = (case map_of (metadata doc) ''ticker'' of Some t \<Rightarrow> t | None \<Rightarrow> []);
          source = (case map_of (metadata doc) ''source'' of Some s \<Rightarrow> s
                    | None \<Rightarrow> ''Unknown'');
          (headline, summary) = parse_content (page_content doc)
      in [(''headline'', PStr (if headline \<noteq> [] then headline else ''No headline available'')),
          (''summary'', PStr (if summary \<noteq> [] then summary else ''No summary available'')),
          (''ticker'', PStr ticker),
          (''source'', PStr source),
          (''relevance_score'', PFloat 0.0)])"

text \<open>\<^verbatim>\<open>item["key"]\<close> raises \<^verbatim>\<open>KeyError\<close> on a missing key.\<close>

definition dict_item :: "pydict \<Rightarrow> string \<Rightarrow> exn + pyval" where
  "dict_item d key = (case map_of d key of Some v \<Rightarrow> Inr v
                      | None \<Rightarrow> Inl (Exn (Builtin ''KeyError'') key))"

definition structured_item :: "pydict \<Rightarrow> exn + NewsItem" where
  "structured_item item =
     (case (dict_item item ''headline'', dict_item item ''summary'',
            dict_item item ''ticker'', dict_item item ''source'') of
        (Inr h, Inr s, Inr t, Inr src) \<Rightarrow>
          NewsItem_init h s t src (dict_get item ''relevance_score'' (PFloat 0.0))
      | (Inl e, _) \<Rightarrow> Inl e
      | (_, Inl e, _) \<Rightarrow> Inl e
      | (_, _, Inl e, _) \<Rightarrow> Inl e
      | (_, _, _, Inl e) \<Rightarrow> Inl e)"

fun structured_news :: "pydict list \<Rightarrow> exn + NewsItem list" where
  "structured_news [] = Inr []"
| "structured_news (item # items) =
     (case structured_item item of
        Inl e \<Rightarrow> Inl e
      | Inr n \<Rightarrow> (case structured_news items of Inl e \<Rightarrow> Inl e | Inr ns \<Rightarrow> Inr (n # ns)))"

text \<open>The body of the \<^verbatim>\<open>try\<close> block, steps 1 to 9.\<close>

definition retrieve_and_generate_try ::
    "services \<Rightarrow> string \<Rightarrow> int \<Rightarrow> (exn + FinancialAnswer) \<times> call list" where
  "retrieve_and_generate_try svc query num_retrievals =
     (let ticker_extraction = extract_tickers_from_query (set_order svc) query;
          (retrieved, trace) = similarity_search svc query num_retrievals
      in case retrieved of
           Inl e \<Rightarrow> (Inl e, trace)
         | Inr retrieved_docs \<Rightarrow>
     (let news_items = map news_item_of retrieved_docs
      in case rank_news_by_relevance news_items query (ter_tickers ticker_extraction) of
           Inl e \<Rightarrow> (Inl e, trace)
         | Inr (news_items', ranked_news) \<Rightarrow>
     (let context = format_news_for_context (str_of svc) ranked_news;
          inp = \<lparr>li_context = context, li_query = query,
                 li_query_type = ter_query_type ticker_extraction,
                 li_tickers = (if ter_tickers ticker_extraction \<noteq> []
                               then join '', '' (ter_tickers ticker_extraction)
                               else ''None specified'')\<rparr>;
          trace = trace @ [ChainInvoke inp]
      in case chain_invoke svc inp of
           Inl e \<Rightarrow> (Inl e, trace)
         | Inr response \<Rightarrow>
     (let all_tickers = py_set (fa_mentioned_tickers response @ ter_tickers ticker_extraction);
          response = response\<lparr>fa_mentioned_tickers := set_order svc all_tickers\<rparr>
      in case structured_news (take 5 ranked_news) of
           Inl e \<Rightarrow> (Inl e, trace)
         | Inr structured \<Rightarrow> (Inr (response\<lparr>fa_top_news := structured\<rparr>), trace)))))"

text \<open>The function with its \<^verbatim>\<open>except Exception\<close> handler.\<close>

definition retrieve_and_generate_response ::
    "services \<Rightarrow> string \<Rightarrow> int \<Rightarrow> (exn + FinancialAnswer) \<times> call list" where
  "retrieve_and_generate_response svc query num_retrievals =
     (case retrieve_and_generate_try svc query num_retrievals of
        (Inr response, trace) \<Rightarrow> (Inr response, trace)
      | (Inl e, trace) \<Rightarrow>
          (Inr \<lparr>fa_summary =
                   ''I apologize, but I encountered an error while processing your query: ''
                   @ exn_str e,
                 fa_key_insights = [''Unable to process query due to technical error''],
                 fa_top_news = [],
                 fa_mentioned_tickers = [],
                 fa_sentiment = Some ''neutral'',
                 fa_confidence_score = Some 0.0,
                 fa_market_outlook = Some ''Unable to provide outlook due to error''\<rparr>,
           trace))"

section \<open>Fallback policy (error\_handling.py)\<close>

definition vector_store_summary :: string where
  "vector_store_summary = ''I'' @ [CHR 0x27] @ ''m experiencing issues with my knowledge base. I can provide general information but may not have the latest updates.''"

definition create_fallback_response :: "string \<Rightarrow> exn \<Rightarrow> FinancialAnswer" where
  "create_fallback_response query error =
     (let (summary, insights) =
        (if exn_class_of error = FinnhubAPIError then
           (''I'' @ [CHR 0x27] @ ''m currently unable to fetch the latest financial data from external sources. Please try again in a few minutes.'',
            [''External financial data service is temporarily unavailable''])
         else if exn_class_of error = VectorStoreError then
           (vector_store_summary,
            [''Knowledge base temporarily unavailable'',
             ''Consider asking about general financial concepts''])
         else if exn_class_of error = LLMError then
           (''I'' @ [CHR 0x27] @ ''m having trouble processing your request right now. Please try rephrasing your question or try again later.'',
            [''Language model temporarily unavailable'', ''Try asking simpler questions''])
         else if exn_class_of error = MongoDBError then
           (''I'' @ [CHR 0x27] @ ''m experiencing database connectivity issues. Some features may be limited.'',
            [''Database connection issues'', ''Historical data may be unavailable''])
         else
           (''I encountered an unexpected error while processing your request: '' @ exn_str error,
            [''Unexpected system error occurred'', ''Please try again or contact support'']))
      in \<lparr>fa_summary = summary,
          fa_key_insights = insights,
          fa_top_news = [],
          fa_mentioned_tickers = [],
          fa_sentiment = Some ''neutral'',
          fa_confidence_score = Some 0.0,
          fa_market_outlook = Some ''Unable to provide outlook due to system error''\<rparr>)"

section \<open>The pipeline boundary (rag\_pipeline.py)\<close>

record RAGPipeline =
  rp_model :: string
  rp_include_news :: bool
  rp_max_results :: int
  rp_analysis_depth :: string


definition answer_dict :: "FinancialAnswer \<Rightarrow> pyval \<Rightarrow> pydict" where
  "answer_dict a news =
     [(''summary'', PStr (fa_summary a)),
      (''key_insights'', PList (map PStr (fa_key_insights a))),
      (''mentioned_tickers'', PList (map PStr (fa_mentioned_tickers a))),
      (''sentiment'', opt_val PStr (fa_sentiment a)),
      (''confidence_score'', opt_val PFloat (fa_confidence_score a)),
      (''related_news'', news),
      (''sources'', PList [])]"

text \<open>\<^verbatim>\<open>x or y\<close> is \<open>y\<close> when \<open>x\<close> is \<^verbatim>\<open>None\<close>, the empty string or zero.\<close>

definition or_str :: "string option \<Rightarrow> string \<Rightarrow> string" where
  "or_str x y = (case x of Some s \<Rightarrow> if s \<noteq> [] then s else y | None \<Rightarrow> y)"

definition or_int :: "int option \<Rightarrow> int \<Rightarrow> int" where
  "or_int x y = (case x of Some n \<Rightarrow> if n \<noteq> 0 then n else y | None \<Rightarrow> y)"

text \<open>
  The result of the answer generator is a \<^verbatim>\<open>FinancialAnswer\<close> by its type, so of the
  three \<^verbatim>\<open>isinstance\<close> branches the first is the one taken; logging has no effect on
  the result.
\<close>

definition process_query ::
    "services \<Rightarrow> RAGPipeline \<Rightarrow> string \<Rightarrow> string option \<Rightarrow> bool option \<Rightarrow> int option \<Rightarrow>
     string option \<Rightarrow> (exn + pydict) \<times> call list" where
  "process_query svc self query model include_news max_results analysis_depth =
     (let model = or_str model (rp_model self);
          include_news = (case include_news of Some b \<Rightarrow> b | None \<Rightarrow> rp_include_news self);
          max_results = or_int max_results (rp_max_results self);
          analysis_depth = or_str analysis_depth (rp_analysis_depth self)
      in case retrieve_and_generate_response svc query max_results of
           (Inr result, trace) \<Rightarrow>
             (let news = map (\<lambda>item. PDict (NewsItem_dict item)) (fa_top_news result)
              in (Inr (answer_dict result (PList news)), trace))
         | (Inl e, trace) \<Rightarrow>
             (let fallback = create_fallback_response query e
              in (Inr (answer_dict fallback (PList [])), trace)))"

section \<open>Ingestion (vector\_search.py)\<close>

definition DocumentModel_init :: "pydict \<Rightarrow> exn + DocumentModel" where
  \<comment> \<open>\<^verbatim>\<open>DocumentModel(**doc)\<close>: every field but \<^verbatim>\<open>image\<close> is required\<close>
  "DocumentModel_init doc =
     (case (dict_item doc ''category'', dict_item doc ''datetime'', dict_item doc ''headline'',
            dict_item doc ''id'', dict_item doc ''related'', dict_item doc ''source'',
            dict_item doc ''summary'', dict_item doc ''url'', dict_item doc ''ticker'',
            dict_item doc ''date'') of
        (Inr c, Inr dt, Inr h, Inr i, Inr r, Inr s, Inr sm, Inr u, Inr t, Inr d) \<Rightarrow>
          (case (as_str c, as_int dt, as_str h, as_int i,
                 as_opt_str (dict_get doc ''image'' PNone),
                 as_str r, as_str s, as_str sm, as_str u, as_str t, as_str d) of
             (Inr c, Inr dt, Inr h, Inr i, Inr im, Inr r, Inr s, Inr sm, Inr u, Inr t, Inr d) \<Rightarrow>
               Inr \<lparr>dm_category = c, dm_datetime = dt, dm_headline = h, dm_id = i,
                    dm_image = im, dm_related = r, dm_source = s, dm_summary = sm,
                    dm_url = u, dm_ticker = t, dm_date = d\<rparr>
           | _ \<Rightarrow> Inl ValidationError)
      | _ \<Rightarrow> Inl ValidationError)"

text \<open>
  The document store (the collection \<^verbatim>\<open>financenews_documents\<close>) and the vector index
  with the identifier of each entry.
\<close>

record store =
  documents :: "DocumentModel list"
  vectors :: "(string \<times> Document) list"

definition bulk_check_duplicates ::
    "(string list \<Rightarrow> string list) \<Rightarrow> store \<Rightarrow> pyval list \<Rightarrow> string list" where
  "bulk_check_duplicates order st document_urls =
     (let existing_docs = filter (\<lambda>d. PStr (dm_url d) \<in> set document_urls) (documents st);
          existing_urls = py_set (map dm_url existing_docs)
      in order existing_urls)"

fun urls_of :: "pydict list \<Rightarrow> exn + pyval list" where
  "urls_of [] = Inr []"
| "urls_of (doc # docs) =
     (case dict_item doc ''url'' of
        Inl e \<Rightarrow> Inl e
      | Inr u \<Rightarrow> (case urls_of docs of Inl e \<Rightarrow> Inl e | Inr us \<Rightarrow> Inr (u # us)))"

definition url_in :: "pydict \<Rightarrow> string list \<Rightarrow> bool" where
  \<comment> \<open>\<^verbatim>\<open>doc["url"] in duplicate_urls\<close>, for a document that has the key\<close>
  "url_in doc duplicate_urls =
     (case map_of doc ''url'' of Some (PStr u) \<Rightarrow> u \<in> set duplicate_urls | _ \<Rightarrow> False)"

fun validate_all :: "pydict list \<Rightarrow> exn + DocumentModel list" where
  "validate_all [] = Inr []"
| "validate_all (doc # docs) =
     (case DocumentModel_init doc of
        Inl e \<Rightarrow> Inl e
      | Inr m \<Rightarrow> (case validate_all docs of Inl e \<Rightarrow> Inl e | Inr ms \<Rightarrow> Inr (m # ms)))"

definition vector_document :: "DocumentModel \<Rightarrow> Document" where
  "vector_document doc =
     \<lparr>page_content = ''Headline: '' @ dm_headline doc @ '' Summary: '' @ dm_summary doc
                      @ '' Ticker: '' @ dm_ticker doc,
      metadata = [(''source'', dm_url doc), (''ticker'', dm_ticker doc)]\<rparr>"

text \<open>
  \<open>scraped_documents\<close> is the batch that \<^verbatim>\<open>FinnHubScraper(...).run()\<close> returns and
  \<open>uuid4 k\<close> the identifier drawn for the \<open>k\<close>-th new document. A document whose
  url is not a string is not among the duplicates and fails the validation, so the run
  raises. The failures of the database and of the embedding service are not part of the
  model.
\<close>

definition store_documents ::
    "(string list \<Rightarrow> string list) \<Rightarrow> (nat \<Rightarrow> string) \<Rightarrow> pydict list \<Rightarrow> store \<Rightarrow> exn + store" where
  "store_documents order uuid4 scraped_documents st =
     (case urls_of scraped_documents of
        Inl e \<Rightarrow> Inl e
      | Inr urls \<Rightarrow>
     (let duplicate_urls = py_set (bulk_check_duplicates order st urls)
      in case validate_all (filter (\<lambda>doc. \<not> url_in doc duplicate_urls) scraped_documents) of
           Inl e \<Rightarrow> Inl e
         | Inr non_duplicate_docs \<Rightarrow>
             if non_duplicate_docs \<noteq> [] then
               (let st = st\<lparr>documents := documents st @ non_duplicate_docs\<rparr>;
                    vector_documents = map vector_document non_duplicate_docs;
                    uuids = map uuid4 [0 ..< length vector_documents]
                in Inr (st\<lparr>vectors := vectors st @ zip uuids vector_documents\<rparr>))
             else Inr st))"

section \<open>Notions used to state the properties\<close>

text \<open>
  The text of a field of a news item (empty when the key is absent, as the default of
  \<^verbatim>\<open>item.get\<close>), and the items whose ticker, headline and summary are strings or absent.
\<close>

definition field_str :: "pydict \<Rightarrow> string \<Rightarrow> string" where
  "field_str item key = (case dict_get item key (PStr []) of PStr s \<Rightarrow> s | _ \<Rightarrow> [])"

definition is_str :: "pyval \<Rightarrow> bool" where
  "is_str v = (case v of PStr s \<Rightarrow> True | _ \<Rightarrow> False)"

definition text_fields_ok :: "pydict \<Rightarrow> bool" where
  "text_fields_ok item \<longleftrightarrow>
     is_str (dict_get item ''ticker'' (PStr [])) \<and>
     is_str (dict_get item ''headline'' (PStr [])) \<and>
     is_str (dict_get item ''summary'' (PStr []))"

text \<open>The words of a text: lower case, split at white space.\<close>

definition words_of :: "string \<Rightarrow> string set" where
  "words_of s = set (split (lower s))"

definition overlap :: "string \<Rightarrow> string \<Rightarrow> nat" where
  "overlap query text = card (words_of query \<inter> words_of text)"


definition relevance :: "string list \<Rightarrow> string \<Rightarrow> pydict \<Rightarrow> rat" where
  "relevance tickers query item =
     0.5 * of_bool (upper (field_str item ''ticker'') \<in> set tickers)
     + 0.1 * of_nat (overlap query (field_str item ''headline''))
     + 0.05 * of_nat (overlap query (field_str item ''summary''))"

definition with_score :: "string list \<Rightarrow> string \<Rightarrow> pydict \<Rightarrow> pydict" where
  "with_score tickers query item =
     AList.update ''relevance_score'' (PFloat (relevance tickers query item)) item"


text \<open>The ranked list of step 4 for the retrieved documents.\<close>

definition ranked_news :: "services \<Rightarrow> string \<Rightarrow> Document list \<Rightarrow> pydict list" where
  "ranked_news svc query docs =
     (case rank_news_by_relevance (map news_item_of docs) query
             (ter_tickers (extract_tickers_from_query (set_order svc) query)) of
        Inr (news_items', ranked) \<Rightarrow> ranked
      | Inl e \<Rightarrow> [])"






section \<open>Sample data\<close>







text \<open>
  A news item as the scraper delivers it, and the empty store. The news source lists an
  article under every ticker it relates to, so two requests can deliver the same url.
\<close>

definition scraped :: "string \<Rightarrow> string \<Rightarrow> pydict" where
  "scraped u related =
     [(''category'', PStr ''company''), (''datetime'', PInt 1700000000),
      (''headline'', PStr ''Apple and Microsoft rally''), (''id'', PInt 7),
      (''image'', PStr ''''), (''related'', PStr related), (''source'', PStr ''Reuters''),
      (''summary'', PStr ''Both rose''), (''url'', PStr u), (''ticker'', PStr related),
      (''date'', PStr ''2023-11-14'')]"

definition empty_store :: store where
  "empty_store = \<lparr>documents = [], vectors = []\<rparr>"

definition sample_uuid4 :: "nat \<Rightarrow> string" where
  "sample_uuid4 k = ''id-'' @ str_nat k"

text \<open>The urls of the records in the document store.\<close>

definition stored_urls :: "store \<Rightarrow> string list" where
  "stored_urls st = map dm_url (documents st)"

text \<open>The url of a scraped document, when it is a string.\<close>

definition url_of :: "pydict \<Rightarrow> string option" where
  "url_of doc = (case map_of doc ''url'' of Some (PStr u) \<Rightarrow> Some u | _ \<Rightarrow> None)"

text \<open>Two news items as step 3 builds them, with the same headline and summary.\<close>

definition news_a :: pydict where
  "news_a = [(''headline'', PStr ''Apple stock rises''), (''summary'', PStr ''the stock is up''),
             (''ticker'', PStr ''aapl''), (''source'', PStr ''u1''),
             (''relevance_score'', PFloat 0.0)]"

definition news_b :: pydict where
  "news_b = [(''headline'', PStr ''Apple stock rises''), (''summary'', PStr ''the stock is up''),
             (''ticker'', PStr ''MSFT''), (''source'', PStr ''u2''),
             (''relevance_score'', PFloat 0.0)]"

section \<open>Properties of the ticker extractor\<close>



section \<open>Properties of the relevance ranker\<close>









lemma calculate_relevance_score_ok:
  "text_fields_ok item \<Longrightarrow>
   calculate_relevance_score tickers (split (lower query)) item = Inr (relevance tickers query item)"
  by (auto simp: text_fields_ok_def is_str_def calculate_relevance_score_def relevance_def
      field_str_def overlap_def words_of_def Let_def split: pyval.splits)

lemma score_items_ok:
  "list_all text_fields_ok items \<Longrightarrow>
   score_items tickers (split (lower query)) items = Inr (map (with_score tickers query) items)"
  by (induction items) (auto simp: calculate_relevance_score_ok with_score_def)



lemma rank_news_by_relevance_ok:
  assumes "list_all text_fields_ok news_items"
  shows "rank_news_by_relevance news_items query tickers =
         Inr (map (with_score tickers query) news_items,
              sorted_reverse relevance_key (map (with_score tickers query) news_items))"
proof (cases "news_items = []")
  case True
  then show ?thesis by (simp add: rank_news_by_relevance_def)
next
  case False
  with score_items_ok [OF assms, of tickers query] show ?thesis
    by (simp add: rank_news_by_relevance_def Let_def)
qed





lemma calculate_relevance_score_Inr:
  "calculate_relevance_score tickers query_words item = Inr s \<Longrightarrow> text_fields_ok item"
  by (auto simp: calculate_relevance_score_def text_fields_ok_def is_str_def Let_def
      split: sum.splits pyval.splits)

lemma score_items_Inr:
  "score_items tickers query_words items = Inr items' \<Longrightarrow> list_all text_fields_ok items"
  by (induction items arbitrary: items')
     (auto split: sum.splits dest: calculate_relevance_score_Inr)

lemma dict_get_with_score:
  "key \<noteq> ''relevance_score'' \<Longrightarrow>
   dict_get (with_score tickers query item) key d = dict_get item key d"
  by (simp add: dict_get_def with_score_def update_conv')

lemma map_of_with_score:
  "key \<noteq> ''relevance_score'' \<Longrightarrow> map_of (with_score tickers query item) key = map_of item key"
  by (simp add: with_score_def update_conv')

lemma relevance_with_score:
  "relevance tickers query (with_score tickers query item) = relevance tickers query item"
  by (simp add: relevance_def field_str_def dict_get_with_score)

lemma text_fields_ok_with_score:
  "text_fields_ok (with_score tickers query item) = text_fields_ok item"
  by (simp add: text_fields_ok_def dict_get_with_score)

lemma with_score_twice:
  "with_score tickers query (with_score tickers query item) = with_score tickers query item"
  by (simp add: relevance_with_score with_score_def [of tickers query "with_score tickers query item"])
     (simp add: with_score_def)

text \<open>
  C6 (amended): the ranker is a function of its inputs with one effect on them: it writes
  the computed score into the field \<^verbatim>\<open>relevance_score\<close> of every input item and leaves
  every other field as it was; a second call on the inputs as the first call left them
  changes nothing more and returns the same list in the same order.
\<close>

theorem rank_news_by_relevance_effect:
  assumes "rank_news_by_relevance news_items query tickers = Inr (news_items', ranked)"
  shows "length news_items' = length news_items
    \<and> (\<forall>i < length news_items. \<forall>key. key \<noteq> ''relevance_score'' \<longrightarrow>
          map_of (news_items' ! i) key = map_of (news_items ! i) key)
    \<and> (\<forall>i < length news_items.
          map_of (news_items' ! i) ''relevance_score'' =
          Some (PFloat (relevance tickers query (news_items ! i))))
    \<and> rank_news_by_relevance news_items' query tickers = Inr (news_items', ranked)"
proof -
  have ok: "list_all text_fields_ok news_items"
  proof (cases "news_items = []")
    case True
    then show ?thesis by simp
  next
    case False
    with assms obtain items' where "score_items tickers (split (lower query)) news_items = Inr items'"
      by (auto simp: rank_news_by_relevance_def Let_def split: sum.splits)
    then show ?thesis by (rule score_items_Inr)
  qed
  let ?scored = "map (with_score tickers query) news_items"
  from assms rank_news_by_relevance_ok [OF ok, of query tickers]
  have items': "news_items' = ?scored"
    and ranked: "ranked = sorted_reverse relevance_key ?scored"
    by auto
  have ok': "list_all text_fields_ok ?scored"
    using ok by (simp add: list_all_iff text_fields_ok_with_score)
  have again: "map (with_score tickers query) ?scored = ?scored"
    by (simp add: with_score_twice)
  have len: "length news_items' = length news_items"
    by (simp add: items')
  have frame: "\<forall>i < length news_items. \<forall>key. key \<noteq> ''relevance_score'' \<longrightarrow>
          map_of (news_items' ! i) key = map_of (news_items ! i) key"
    by (simp add: items' map_of_with_score)
  have written: "\<forall>i < length news_items.
          map_of (news_items' ! i) ''relevance_score'' =
          Some (PFloat (relevance tickers query (news_items ! i)))"
    by (simp add: items' with_score_def update_conv')
  have rerun: "rank_news_by_relevance news_items' query tickers = Inr (news_items', ranked)"
    using rank_news_by_relevance_ok [OF ok', of query tickers]
    by (simp only: again items' ranked)
  from len frame written rerun show ?thesis by blast
qed

lemma rank_news_ab:
  "rank_news_by_relevance [news_b, news_a] ''apple stock'' [''AAPL''] =
     Inr ([AList.update ''relevance_score'' (PFloat 0.25) news_b,
           AList.update ''relevance_score'' (PFloat 0.75) news_a],
          [AList.update ''relevance_score'' (PFloat 0.75) news_a,
           AList.update ''relevance_score'' (PFloat 0.25) news_b])"
  by code_simp

theorem rank_news_by_relevance_effect_witness:
  "rank_news_by_relevance [news_b, news_a] ''apple stock'' [''AAPL''] =
     Inr ([AList.update ''relevance_score'' (PFloat 0.25) news_b,
           AList.update ''relevance_score'' (PFloat 0.75) news_a],
          [AList.update ''relevance_score'' (PFloat 0.75) news_a,
           AList.update ''relevance_score'' (PFloat 0.25) news_b])
   \<and> rank_news_by_relevance [AList.update ''relevance_score'' (PFloat 0.25) news_b,
           AList.update ''relevance_score'' (PFloat 0.75) news_a] ''apple stock'' [''AAPL''] =
     Inr ([AList.update ''relevance_score'' (PFloat 0.25) news_b,
           AList.update ''relevance_score'' (PFloat 0.75) news_a],
          [AList.update ''relevance_score'' (PFloat 0.75) news_a,
           AList.update ''relevance_score'' (PFloat 0.25) news_b])"
  using rank_news_by_relevance_effect [OF rank_news_ab] rank_news_ab by blast

text \<open>
  C6 as stated says that no field of an input item is modified. The item \<open>news_a\<close>
  carries the score 0.0 before the call and 0.75 after it.
\<close>

theorem rank_news_by_relevance_mutates_counterexample:
  "rank_news_by_relevance [news_a] ''apple stock'' [''AAPL''] =
     Inr ([AList.update ''relevance_score'' (PFloat 0.75) news_a],
          [AList.update ''relevance_score'' (PFloat 0.75) news_a])
   \<and> map_of (AList.update ''relevance_score'' (PFloat 0.75) news_a) ''relevance_score''
       \<noteq> map_of news_a ''relevance_score''"
  by code_simp

section \<open>Properties of the pipeline boundary\<close>

lemma retrieve_and_generate_response_Inr:
  "\<exists>answer trace. retrieve_and_generate_response svc query n = (Inr answer, trace)"
  by (auto simp: retrieve_and_generate_response_def split: prod.splits sum.splits)

lemma answer_dict_keys:
  "map fst (answer_dict a news) =
     [''summary'', ''key_insights'', ''mentioned_tickers'', ''sentiment'', ''confidence_score'',
      ''related_news'', ''sources'']"
  by (simp add: answer_dict_def)

text \<open>
  C1: for every query, also the empty one, and every configuration, \<open>process_query\<close>
  raises nothing and returns a mapping with exactly the seven keys \<^verbatim>\<open>summary\<close>,
  \<^verbatim>\<open>key_insights\<close>, \<^verbatim>\<open>mentioned_tickers\<close>, \<^verbatim>\<open>sentiment\<close>, \<^verbatim>\<open>confidence_score\<close>,
  \<^verbatim>\<open>related_news\<close> and \<^verbatim>\<open>sources\<close>, whatever the external services do.
\<close>

theorem process_query_returns_seven_keys:
  "\<exists>response trace.
     process_query svc self query model include_news max_results analysis_depth
       = (Inr response, trace)
     \<and> map fst response =
         [''summary'', ''key_insights'', ''mentioned_tickers'', ''sentiment'',
          ''confidence_score'', ''related_news'', ''sources'']"
  by (auto simp: process_query_def Let_def answer_dict_keys split: prod.splits sum.splits)

text \<open>
  C10: two runs of \<open>process_query\<close> on the same query, the same \<^verbatim>\<open>max_results\<close> and
  the same services, which differ in the model, the news flag and the analysis depth of
  the pipeline object and of the call, return the same result and issue the same requests
  to the services.
\<close>

theorem process_query_ignores_options:
  "process_query svc (self\<lparr>rp_model := m1, rp_include_news := i1, rp_analysis_depth := d1\<rparr>)
       query m2 i2 max_results d2
   = process_query svc self query m3 i3 max_results d3"
  by (simp add: process_query_def Let_def)






section \<open>Properties of the fallback and of the answer\<close>










lemma set_foldl_set_add: "set (foldl set_add acc xs) = set acc \<union> set xs"
  by (induction xs arbitrary: acc) (auto simp: set_add_def)

lemma set_py_set: "set (py_set xs) = set xs"
  by (simp add: py_set_def set_foldl_set_add)

lemma distinct_foldl_set_add: "distinct acc \<Longrightarrow> distinct (foldl set_add acc xs)"
  by (induction xs arbitrary: acc) (auto simp: set_add_def)

lemma distinct_py_set: "distinct (py_set xs)"
  by (simp add: py_set_def distinct_foldl_set_add)







section \<open>Properties of the ingestion\<close>

lemma DocumentModel_init_url:
  "DocumentModel_init doc = Inr m \<Longrightarrow> map_of doc ''url'' = Some (PStr (dm_url m))"
  by (auto simp: DocumentModel_init_def dict_item_def split: sum.splits option.splits prod.splits pyval.splits elim!: as_str.elims)

lemma DocumentModel_init_url_of:
  "DocumentModel_init doc = Inr m \<Longrightarrow> url_of doc = Some (dm_url m)"
  by (simp add: url_of_def DocumentModel_init_url)

lemma urls_of_member:
  "urls_of batch = Inr urls \<Longrightarrow> doc \<in> set batch \<Longrightarrow> url_of doc = Some u \<Longrightarrow>
   PStr u \<in> set urls"
  by (induction batch arbitrary: urls)
     (auto simp: dict_item_def url_of_def split: sum.splits option.splits pyval.splits)

lemma validate_all_urls:
  "validate_all docs = Inr ms \<Longrightarrow> map Some (map dm_url ms) = map url_of docs"
  by (induction docs arbitrary: ms) (auto split: sum.splits dest: DocumentModel_init_url_of)

lemma set_bulk_check_duplicates:
  assumes "\<forall>xs. set (order xs) = set xs"
  shows "set (bulk_check_duplicates order st urls) =
         {u \<in> set (stored_urls st). PStr u \<in> set urls}"
  using assms by (auto simp: bulk_check_duplicates_def set_py_set stored_urls_def Let_def)

lemma url_in_iff: "url_in doc dups \<longleftrightarrow> (\<exists>u. url_of doc = Some u \<and> u \<in> set dups)"
  by (auto simp: url_in_def url_of_def split: option.splits pyval.splits)

lemma store_documents_Inr:
  assumes "store_documents order uuid4 batch st = Inr st'"
  shows "\<exists>urls new.
      urls_of batch = Inr urls \<and>
      validate_all (filter (\<lambda>doc. \<not> url_in doc (py_set (bulk_check_duplicates order st urls)))
                      batch) = Inr new \<and>
      documents st' = documents st @ new"
  using assms
  by (auto simp: store_documents_def Let_def split: sum.splits if_splits)

text \<open>
  A second run over the same batch inserts nothing: after a run that returned, every url
  of the batch is in the store.
\<close>

lemma store_documents_rerun:
  assumes order: "\<forall>xs. set (order xs) = set xs"
    and first: "store_documents order uuid4 batch st = Inr st'"
  shows "store_documents order uuid4' batch st' = Inr st'"
proof -
  from store_documents_Inr [OF first] obtain urls new where
    urls: "urls_of batch = Inr urls"
    and new: "validate_all (filter (\<lambda>doc. \<not> url_in doc
                 (py_set (bulk_check_duplicates order st urls))) batch) = Inr new"
    and docs: "documents st' = documents st @ new"
    by blast
  let ?dups = "py_set (bulk_check_duplicates order st urls)"
  let ?dups' = "py_set (bulk_check_duplicates order st' urls)"
  have all_dup: "url_in doc ?dups'" if d: "doc \<in> set batch" for doc
  proof (cases "url_in doc ?dups")
    case True
    then obtain u where u: "url_of doc = Some u" and "u \<in> set ?dups"
      by (auto simp: url_in_iff)
    then have "u \<in> set (stored_urls st)" and "PStr u \<in> set urls"
      by (simp_all add: set_py_set set_bulk_check_duplicates [OF order])
    then have "u \<in> set ?dups'"
      by (simp add: set_py_set set_bulk_check_duplicates [OF order] stored_urls_def docs)
    with u show ?thesis by (auto simp: url_in_iff)
  next
    case False
    with d have "doc \<in> set (filter (\<lambda>doc. \<not> url_in doc ?dups) batch)" by simp
    then have "url_of doc \<in> set (map url_of (filter (\<lambda>doc. \<not> url_in doc ?dups) batch))"
      by force
    with validate_all_urls [OF new]
    have "url_of doc \<in> set (map Some (map dm_url new))" by simp
    then obtain u where u: "url_of doc = Some u" and n: "u \<in> set (map dm_url new)"
      by auto
    from urls_of_member [OF urls d u] have "PStr u \<in> set urls" .
    with n have "u \<in> set ?dups'"
      by (simp add: set_py_set set_bulk_check_duplicates [OF order] stored_urls_def docs)
    with u show ?thesis by (auto simp: url_in_iff)
  qed
  then have "filter (\<lambda>doc. \<not> url_in doc ?dups') batch = []"
    by (simp add: filter_empty_conv)
  then show ?thesis
    by (simp add: store_documents_def urls Let_def)
qed

lemma distinct_map_Some: "distinct (map Some ys) \<Longrightarrow> distinct ys"
  by (simp add: distinct_map)

text \<open>
  A batch without repeated urls keeps the urls of the store distinct.
\<close>

lemma store_documents_distinct:
  assumes order: "\<forall>xs. set (order xs) = set xs"
    and inv: "distinct (stored_urls st)"
    and batch: "distinct (map url_of batch)"
    and run: "store_documents order uuid4 batch st = Inr st'"
  shows "distinct (stored_urls st')"
proof -
  from store_documents_Inr [OF run] obtain urls new where
    urls: "urls_of batch = Inr urls"
    and new: "validate_all (filter (\<lambda>doc. \<not> url_in doc
                 (py_set (bulk_check_duplicates order st urls))) batch) = Inr new"
    and docs: "documents st' = documents st @ new"
    by blast
  let ?dups = "py_set (bulk_check_duplicates order st urls)"
  let ?fresh = "filter (\<lambda>doc. \<not> url_in doc ?dups) batch"
  have eq: "map Some (map dm_url new) = map url_of ?fresh"
    by (rule validate_all_urls [OF new])
  have "distinct (map url_of ?fresh)"
    using batch by (rule distinct_map_filter)
  with eq have "distinct (map Some (map dm_url new))" by simp
  then have d1: "distinct (map dm_url new)"
    by (rule distinct_map_Some)
  have d2: "set (stored_urls st) \<inter> set (map dm_url new) = {}"
  proof (rule ccontr)
    assume "set (stored_urls st) \<inter> set (map dm_url new) \<noteq> {}"
    then obtain u where s: "u \<in> set (stored_urls st)" and n: "u \<in> set (map dm_url new)"
      by auto
    from n have "Some u \<in> set (map Some (map dm_url new))" by auto
    with eq have "Some u \<in> set (map url_of ?fresh)" by simp
    then obtain doc where d: "doc \<in> set batch" and f: "\<not> url_in doc ?dups"
      and u: "url_of doc = Some u"
      by auto
    from urls_of_member [OF urls d u] s have "u \<in> set ?dups"
      by (simp add: set_py_set set_bulk_check_duplicates [OF order])
    with u f show False by (auto simp: url_in_iff)
  qed
  from inv d1 d2 show ?thesis
    by (simp add: stored_urls_def docs)
qed

text \<open>
  C9: the store is to hold at most one record per url after \<open>store_documents\<close>, also for
  a batch with repeated urls. The duplicate check looks at the store only: from the empty
  store, a batch in which one url comes twice (the article is listed under two tickers)
  leaves two records with that url.
\<close>

theorem store_documents_repeated_url:
  "(case store_documents (\<lambda>xs. xs) sample_uuid4
          [scraped ''http://n/1'' ''AAPL'', scraped ''http://n/1'' ''MSFT''] empty_store of
      Inr st \<Rightarrow> stored_urls st
    | Inl e \<Rightarrow> [])
   = [''http://n/1'', ''http://n/1'']"
  by code_simp

section \<open>Remarks on the string functions\<close>

text \<open>
  \<^verbatim>\<open>s.split(sep)\<close> never returns the empty list, so the index \<^verbatim>\<open>[0]\<close> in step 3 is
  always in range.
\<close>

lemma split_on_not_empty: "split_on sep cur s \<noteq> []"
  by (induction sep cur s rule: split_on.induct) auto

end
